theory Spec2Isabelle
  imports Complex_Main
begin

section \<open>The engagement core of controlsd\<close>

text \<open>
  A shallow embedding of \<^verbatim>\<open>selfdrive/controls/controlsd.py\<close>: the part of the
  \<^verbatim>\<open>Controls\<close> object that the engagement state machine, the mismatch counter, the
  event aggregation and the actuator check read and write. Python integers are \<open>int\<close>,
  cereal enums are datatypes or their schema identifiers, mutation of \<^verbatim>\<open>self\<close> is
  state passing on a record.
\<close>

subsection \<open>Enums\<close>

text \<open>\<^verbatim>\<open>State = log.ControlsState.OpenpilotState\<close>\<close>

datatype State = State_disabled | State_preEnabled | State_enabled
  | State_softDisabling | State_overriding

text \<open>The event types \<^verbatim>\<open>ET\<close> that the file names.\<close>

datatype ET = ENABLE | PRE_ENABLE | OVERRIDE_LATERAL | OVERRIDE_LONGITUDINAL | NO_ENTRY
  | WARNING | USER_DISABLE | SOFT_DISABLE | IMMEDIATE_DISABLE | PERMANENT

text \<open>
  \<^verbatim>\<open>EventName = car.CarEvent.EventName\<close>: an event code is written as its
  schema identifier, \<^verbatim>\<open>EventName.controlsMismatch\<close> as \<open>''controlsMismatch''\<close>.
\<close>

type_synonym EventName = string

definition ACTIVE_STATES :: "State list" where
  "ACTIVE_STATES = [State_enabled, State_softDisabling, State_overriding]"

definition ENABLED_STATES :: "State list" where
  "ENABLED_STATES = State_preEnabled # ACTIVE_STATES"

subsection \<open>Constants\<close>

definition SOFT_DISABLE_TIME :: rat where
  "SOFT_DISABLE_TIME = 3"

text \<open>
  Modelled from the spec: \<^verbatim>\<open>DT_CTRL\<close> of \<^verbatim>\<open>openpilot.common.realtime\<close> is
  imported, not defined, by the file; the spec gives the control tick as 100 Hz, a
  period of 10 ms. The period is a rational number here, so \<open>SOFT_DISABLE_TIME / DT_CTRL\<close>
  is the exact quotient.
\<close>

definition DT_CTRL :: rat where
  "DT_CTRL = 1 / 100"

text \<open>Python's \<^verbatim>\<open>int(x)\<close> on a number: truncation toward zero.\<close>

definition py_int :: "rat \<Rightarrow> int" where
  "py_int q = (if 0 \<le> q then \<lfloor>q\<rfloor> else \<lceil>q\<rceil>)"

subsection \<open>The event collection\<close>

text \<open>
  Modelled from the spec: the class \<^verbatim>\<open>Events\<close> and the table \<^verbatim>\<open>EVENTS\<close> of
  \<^verbatim>\<open>selfdrive/controls/lib/events.py\<close> are imported, not defined, by the file. The
  spec describes a per-cycle, order-irrelevant collection of active event codes, each
  code mapped to one or more categories by external configuration, of which the state
  machine only queries category membership. The collection is a list of codes (its
  length is read by \<^verbatim>\<open>update_events\<close>); the table is a parameter \<open>EVENTS\<close> of every
  function that queries a category.
\<close>

definition Events_add :: "EventName \<Rightarrow> EventName list \<Rightarrow> EventName list" where
  "Events_add e evs = evs @ [e]"

definition Events_add_from_msg :: "EventName list \<Rightarrow> EventName list \<Rightarrow> EventName list" where
  "Events_add_from_msg msg evs = evs @ msg"

definition Events_contains :: "(EventName \<Rightarrow> ET set) \<Rightarrow> EventName list \<Rightarrow> ET \<Rightarrow> bool" where
  "Events_contains EVENTS evs et = list_ex (\<lambda>e. et \<in> EVENTS e) evs"

subsection \<open>Messages and parameters read each cycle\<close>

text \<open>
  What the modelled methods read from the car state, from the \<^verbatim>\<open>SubMaster\<close> and from
  the rest of \<^verbatim>\<open>self\<close>. Enum values carry the name of their enum. Numeric telemetry is
  rational, so a comparison is the exact one; a product with \<^verbatim>\<open>DT_CTRL\<close> is the exact
  product.
\<close>

datatype SafetyModel = SafetyModel_silent | SafetyModel_noOutput | SafetyModel_other nat

definition IGNORED_SAFETY_MODES :: "SafetyModel list" where
  "IGNORED_SAFETY_MODES = [SafetyModel_silent, SafetyModel_noOutput]"

datatype FaultType = FaultType_relayMalfunction | FaultType_other nat

datatype ButtonType = ButtonType_accelCruise | ButtonType_resumeCruise
  | ButtonType_decelCruise | ButtonType_gapAdjustCruise | ButtonType_other

datatype ThermalStatus = ThermalStatus_green | ThermalStatus_yellow | ThermalStatus_red
  | ThermalStatus_danger

fun ThermalStatus_ord :: "ThermalStatus \<Rightarrow> nat" where
  "ThermalStatus_ord ThermalStatus_green = 0"
| "ThermalStatus_ord ThermalStatus_yellow = 1"
| "ThermalStatus_ord ThermalStatus_red = 2"
| "ThermalStatus_ord ThermalStatus_danger = 3"

datatype CalStatus = CalStatus_uncalibrated | CalStatus_calibrated | CalStatus_invalid
  | CalStatus_recalibrating

datatype LaneChangeState = LaneChangeState_off | LaneChangeState_preLaneChange
  | LaneChangeState_laneChangeStarting | LaneChangeState_laneChangeFinishing

datatype LaneChangeDirection = LaneChangeDirection_none | LaneChangeDirection_left
  | LaneChangeDirection_right

datatype Desire = Desire_none | Desire_turnLeft | Desire_turnRight | Desire_other

text \<open>One entry of \<^verbatim>\<open>sm['pandaStates']\<close>.\<close>

record PandaState =
  safetyModel :: SafetyModel
  safetyParam :: int
  alternativeExperience :: int
  controlsAllowed :: bool
  safetyRxChecksInvalid :: bool
  faults :: "FaultType list"

text \<open>
  \<^verbatim>\<open>self.CP\<close>; an entry of \<open>safetyConfigs\<close> is its pair of safety model and safety
  parameter. \<open>CP_passive\<close> is \<^verbatim>\<open>CP.passive\<close>, \<open>lateralTuning_torque\<close> is
  \<^verbatim>\<open>CP.lateralTuning.which() == 'torque'\<close>.
\<close>

record CarParams =
  CP_passive :: bool
  pcmCruise :: bool
  notCar :: bool
  openpilotLongitudinalControl :: bool
  safetyConfigs :: "(SafetyModel \<times> int) list"
  CP_alternativeExperience :: int
  lateralTuning_torque :: bool

text \<open>The car state \<^verbatim>\<open>CS\<close>; \<open>carEvents\<close> is \<^verbatim>\<open>CS.events\<close>.\<close>

record CarState =
  canValid :: bool
  canTimeout :: bool
  gasPressed :: bool
  brakePressed :: bool
  regenBraking :: bool
  standstill :: bool
  leftBlindspot :: bool
  rightBlindspot :: bool
  cruiseState_enabled :: bool
  aEgo :: rat
  vEgo :: rat
  buttonEvents :: "ButtonType list"
  carEvents :: "EventName list"

text \<open>\<^verbatim>\<open>car.CarState.new_message()\<close>: every field at its default.\<close>

definition CarState_new :: CarState where
  "CarState_new =
     \<lparr> canValid = False, canTimeout = False, gasPressed = False, brakePressed = False,
       regenBraking = False, standstill = False, leftBlindspot = False,
       rightBlindspot = False, cruiseState_enabled = False, aEgo = 0, vEgo = 0,
       buttonEvents = [], carEvents = [] \<rparr>"

text \<open>
  The \<^verbatim>\<open>SubMaster\<close> after \<^verbatim>\<open>self.sm.update(0)\<close>: the liveness checks it answers and
  the fields of its messages that \<^verbatim>\<open>update_events\<close> reads. \<open>processes\<close> holds name,
  \<^verbatim>\<open>running\<close> and \<^verbatim>\<open>shouldBeRunning\<close> of each entry of \<^verbatim>\<open>managerState\<close>;
  \<open>recv_frame_sensors\<close> holds \<^verbatim>\<open>recv_frame[s]\<close> for the sensor packets.
\<close>

record SubMaster =
  frame :: int
  all_checks :: bool
  all_alive :: bool
  all_freq_ok :: bool
  camera_all_alive :: bool
  camera_all_freq_ok :: bool
  radarState_all_checks :: bool
  valid_pandaStates :: bool
  recv_frame_managerState :: int
  recv_frame_sensors :: "int list"
  pandaStates :: "PandaState list"
  processes :: "(string \<times> bool \<times> bool) list"
  radarErrors :: "nat list"
  driverMonitoringState_events :: "EventName list"
  thermalStatus :: ThermalStatus
  freeSpacePercent :: rat
  memoryUsagePercent :: rat
  fanSpeedPercentDesired :: rat
  pandaType_unknown :: bool
  fanSpeedRpm :: rat
  calStatus :: CalStatus
  laneChangeState :: LaneChangeState
  laneChangeDirection :: LaneChangeDirection
  turnDirection :: Desire
  hardBrakePredicted :: bool
  frameDropPerc :: rat
  laneWidthLeft :: rat
  laneWidthRight :: rat
  posenetOK :: bool
  deviceStable :: bool
  inputsOK :: bool
  gpsOK :: bool
  liveParameters_valid :: bool
  longitudinalPlan_fcw :: bool

text \<open>
  The remaining reads of \<^verbatim>\<open>update_events\<close> and \<^verbatim>\<open>state_transition\<close>: module flags,
  parameters, the rate keeper, the car interface, and fields of \<^verbatim>\<open>self\<close> that no
  modelled method needs on a later cycle, each with the value it has when the cycle
  reads it. \<open>camera_error_csids\<close> holds, for each drained \<^verbatim>\<open>androidLog\<close> message that
  names a camera error, the text after \<^verbatim>\<open>CSID:\<close>; \<open>alwaysOnLateral\<close> is
  \<^verbatim>\<open>self.FPCC.alwaysOnLateral\<close>.
\<close>

record Env =
  SIMULATION :: bool
  REPLAY :: bool
  TESTING_CLOSET :: bool
  joystick_mode :: bool
  disengage_on_accelerator :: bool
  increase_thermal_limits :: bool
  loud_blindspot_alert :: bool
  radarless_model :: bool
  rk_lagging :: bool
  can_rcv_timeout :: bool
  v_cruise_initialized :: bool
  lane_detection_width :: rat
  last_functional_fan_frame :: int
  distance_traveled :: rat
  fcw_random_event_triggered :: bool
  camera_error_csids :: "string list"
  alwaysOnLateral :: bool

text \<open>
  The reads of \<^verbatim>\<open>update_frogpilot_events\<close>. \<open>green_light_average\<close> tells whether the
  moving average has reached \<^verbatim>\<open>PROBABILITY\<close> after this cycle's sample, \<open>holiday_due\<close>
  whether a holiday theme is set and not yet announced, \<open>lead_departing\<close> the value
  computed at lines 985 to 993, \<open>crash_file_new\<close> whether the crash file exists and was
  not reported, \<open>v_cruise\<close> the converted cruise speed of line 1064.
\<close>

record FrogPilot =
  block_user :: bool
  random_events :: bool
  max_acceleration :: rat
  green_light_alert :: bool
  green_light_average :: bool
  holiday_themes :: bool
  holiday_due :: bool
  lead_departing_alert :: bool
  lead_departing :: bool
  crash_file_new :: bool
  speed_limit_alert :: bool
  speed_limit_confirmation :: bool
  speed_limit_changed_lower :: bool
  speed_limit_changed_higher :: bool
  use_nnff :: bool
  v_cruise :: rat
  vCruise69_alert_played :: bool

subsection \<open>The controller's own state\<close>

text \<open>
  The fields of \<^verbatim>\<open>self\<close> that the modelled methods read and write, with the values
  \<^verbatim>\<open>__init__\<close> gives them. \<open>static_events\<close> is what \<^verbatim>\<open>__init__\<close> added with
  \<^verbatim>\<open>static=True\<close>; \<^verbatim>\<open>update_events\<close> starts every cycle from it.
\<close>

record Controls =
  initialized :: bool
  state :: State
  enabled :: bool
  active :: bool
  soft_disable_timer :: int
  mismatch_counter :: int
  cruise_mismatch_counter :: int
  events :: "EventName list"
  static_events :: "EventName list"
  startup_event :: "EventName option"
  current_alert_types :: "ET list"
  CS_prev :: CarState

definition Controls_init :: "EventName list \<Rightarrow> EventName option \<Rightarrow> Controls" where
  "Controls_init static startup =
     \<lparr> initialized = False, state = State_disabled, enabled = False, active = False,
       soft_disable_timer = 0, mismatch_counter = 0, cruise_mismatch_counter = 0,
       events = static, static_events = static, startup_event = startup,
       current_alert_types = [PERMANENT], CS_prev = CarState_new \<rparr>"

subsection \<open>\<^verbatim>\<open>Controls.state_transition\<close>\<close>

definition contains :: "(EventName \<Rightarrow> ET set) \<Rightarrow> Controls \<Rightarrow> ET \<Rightarrow> bool" where
  "contains EVENTS self et = Events_contains EVENTS (events self) et"

definition alert :: "ET list \<Rightarrow> Controls \<Rightarrow> Controls" where
  "alert ets self = self\<lparr>current_alert_types := current_alert_types self @ ets\<rparr>"

text \<open>
  The branch for a state other than \<^verbatim>\<open>State.disabled\<close> once neither a user disable nor
  an immediate disable is present (the \<^verbatim>\<open>else\<close> of lines 530 to 570).
\<close>

definition transition_engaged :: "(EventName \<Rightarrow> ET set) \<Rightarrow> Controls \<Rightarrow> Controls" where
  "transition_engaged EVENTS self =
     (if state self = State_enabled then
        (if contains EVENTS self SOFT_DISABLE then
           alert [SOFT_DISABLE]
             (self\<lparr>state := State_softDisabling,
                   soft_disable_timer := py_int (SOFT_DISABLE_TIME / DT_CTRL)\<rparr>)
         else if contains EVENTS self OVERRIDE_LATERAL
                 \<or> contains EVENTS self OVERRIDE_LONGITUDINAL then
           alert [OVERRIDE_LATERAL, OVERRIDE_LONGITUDINAL] (self\<lparr>state := State_overriding\<rparr>)
         else self)
      else if state self = State_softDisabling then
        (if \<not> contains EVENTS self SOFT_DISABLE then self\<lparr>state := State_enabled\<rparr>
         else if soft_disable_timer self > 0 then alert [SOFT_DISABLE] self
         else if soft_disable_timer self \<le> 0 then self\<lparr>state := State_disabled\<rparr>
         else self)
      else if state self = State_preEnabled then
        (if \<not> contains EVENTS self PRE_ENABLE then self\<lparr>state := State_enabled\<rparr>
         else alert [PRE_ENABLE] self)
      else if state self = State_overriding then
        (if contains EVENTS self SOFT_DISABLE then
           alert [SOFT_DISABLE]
             (self\<lparr>state := State_softDisabling,
                   soft_disable_timer := py_int (SOFT_DISABLE_TIME / DT_CTRL)\<rparr>)
         else if \<not> (contains EVENTS self OVERRIDE_LATERAL
                     \<or> contains EVENTS self OVERRIDE_LONGITUDINAL) then
           self\<lparr>state := State_enabled\<rparr>
         else alert [OVERRIDE_LATERAL, OVERRIDE_LONGITUDINAL] self)
      else self)"

text \<open>The branch for \<^verbatim>\<open>State.disabled\<close> (lines 573 to 586).\<close>

definition transition_disabled :: "(EventName \<Rightarrow> ET set) \<Rightarrow> Controls \<Rightarrow> Controls" where
  "transition_disabled EVENTS self =
     (if contains EVENTS self ENABLE then
        (if contains EVENTS self NO_ENTRY then alert [NO_ENTRY] self
         else
           alert [ENABLE]
             (if contains EVENTS self PRE_ENABLE then self\<lparr>state := State_preEnabled\<rparr>
              else if contains EVENTS self OVERRIDE_LATERAL
                      \<or> contains EVENTS self OVERRIDE_LONGITUDINAL then
                self\<lparr>state := State_overriding\<rparr>
              else self\<lparr>state := State_enabled\<rparr>))
      else self)"

text \<open>
  The whole method. \<open>aol\<close> is \<^verbatim>\<open>self.FPCC.alwaysOnLateral\<close>, read at the
  end. The two calls into \<^verbatim>\<open>self.v_cruise_helper\<close> write the cruise-speed
  collaborator only and are left out.
\<close>

definition state_transition :: "(EventName \<Rightarrow> ET set) \<Rightarrow> bool \<Rightarrow> Controls \<Rightarrow> Controls" where
  "state_transition EVENTS aol self0 =
     (let self1 = self0\<lparr>soft_disable_timer := max 0 (soft_disable_timer self0 - 1)\<rparr>;
          self2 = self1\<lparr>current_alert_types := [PERMANENT]\<rparr>;
          self3 =
            (if state self2 \<noteq> State_disabled then
               (if contains EVENTS self2 USER_DISABLE then
                  alert [USER_DISABLE] (self2\<lparr>state := State_disabled\<rparr>)
                else if contains EVENTS self2 IMMEDIATE_DISABLE then
                  alert [IMMEDIATE_DISABLE] (self2\<lparr>state := State_disabled\<rparr>)
                else transition_engaged EVENTS self2)
             else if state self2 = State_disabled then transition_disabled EVENTS self2
             else self2);
          self4 = self3\<lparr>enabled := state self3 \<in> set ENABLED_STATES,
                         active := state self3 \<in> set ACTIVE_STATES\<rparr>;
          self5 = (if active self4 then alert [WARNING] self4 else self4)
      in if aol then alert [WARNING] self5 else self5)"

text \<open>The method applied on consecutive cycles to an unchanged event collection.\<close>

fun repeat_transition :: "(EventName \<Rightarrow> ET set) \<Rightarrow> bool list \<Rightarrow> Controls \<Rightarrow> Controls" where
  "repeat_transition EVENTS [] self = self"
| "repeat_transition EVENTS (aol # aols) self =
     repeat_transition EVENTS aols (state_transition EVENTS aol self)"

subsection \<open>\<^verbatim>\<open>Controls.update_events\<close>\<close>

text \<open>
  The method rebuilds the collection. It is split here at its own comment lines; each
  part takes the collection built so far and returns it with the part's events added.
  A guarded \<^verbatim>\<open>self.events.add\<close> is \<open>add_if\<close>.
\<close>

definition add_if :: "bool \<Rightarrow> EventName \<Rightarrow> EventName list \<Rightarrow> EventName list" where
  "add_if b e evs = (if b then Events_add e evs else evs)"

text \<open>Lines 249 to 271: resume block, pedals, driver monitoring and car events.\<close>

definition pedal_events ::
  "CarParams \<Rightarrow> Env \<Rightarrow> SubMaster \<Rightarrow> CarState \<Rightarrow> CarState \<Rightarrow> EventName list \<Rightarrow> EventName list"
where
  "pedal_events CP env sm CS prev evs0 =
     (let resume_pressed =
            list_ex (\<lambda>be. be \<in> {ButtonType_accelCruise, ButtonType_resumeCruise})
              (buttonEvents CS);
          evs1 = add_if (\<not> pcmCruise CP \<and> \<not> v_cruise_initialized env \<and> resume_pressed)
                   ''resumeBlocked'' evs0;
          evs2 = add_if
                   ((gasPressed CS \<and> \<not> gasPressed prev \<and> disengage_on_accelerator env)
                    \<or> (brakePressed CS \<and> (\<not> brakePressed prev \<or> \<not> standstill CS))
                    \<or> (regenBraking CS \<and> (\<not> regenBraking prev \<or> \<not> standstill CS)))
                   ''pedalPressed'' evs1;
          evs3 = add_if (brakePressed CS \<and> standstill CS) ''preEnableStandstill'' evs2;
          evs4 = add_if (gasPressed CS) ''gasPressedOverride'' evs3;
          evs5 = (if \<not> notCar CP
                  then Events_add_from_msg (driverMonitoringState_events sm) evs4 else evs4)
      in if canValid CS then Events_add_from_msg (carEvents CS) evs5 else evs5)"

text \<open>Lines 273 to 295: temperature, disk space, memory and fan.\<close>

definition device_events :: "Env \<Rightarrow> SubMaster \<Rightarrow> EventName list \<Rightarrow> EventName list" where
  "device_events env sm evs0 =
     (let evs1 = add_if
                   (ThermalStatus_ord (thermalStatus sm) \<ge> ThermalStatus_ord ThermalStatus_red
                    \<and> (\<not> increase_thermal_limits env
                        \<or> thermalStatus sm = ThermalStatus_danger))
                   ''overheat'' evs0;
          evs2 = add_if (freeSpacePercent sm < 7 \<and> \<not> SIMULATION env) ''outOfSpace'' evs1;
          evs3 = add_if (memoryUsagePercent sm > 90 \<and> \<not> SIMULATION env) ''lowMemory'' evs2
      in add_if
           (\<not> pandaType_unknown sm
            \<and> fanSpeedRpm sm < 500 \<and> fanSpeedPercentDesired sm > 50
            \<and> of_int (frame sm - last_functional_fan_frame env) * DT_CTRL > 15)
           ''fanMalfunction'' evs3)"

text \<open>Lines 297 to 308: calibration status.\<close>

definition calibration_events :: "SubMaster \<Rightarrow> EventName list \<Rightarrow> EventName list" where
  "calibration_events sm evs =
     (if calStatus sm \<noteq> CalStatus_calibrated then
        (if calStatus sm = CalStatus_uncalibrated then Events_add ''calibrationIncomplete'' evs
         else if calStatus sm = CalStatus_recalibrating then
           Events_add ''calibrationRecalibrating'' evs
         else Events_add ''calibrationInvalid'' evs)
      else evs)"

text \<open>Lines 310 to 332: lane change.\<close>

definition lane_change_events ::
  "Env \<Rightarrow> SubMaster \<Rightarrow> CarState \<Rightarrow> EventName list \<Rightarrow> EventName list"
where
  "lane_change_events env sm CS evs =
     (if laneChangeState sm = LaneChangeState_preLaneChange then
        (let direction = laneChangeDirection sm in
         if (leftBlindspot CS \<and> direction = LaneChangeDirection_left)
            \<or> (rightBlindspot CS \<and> direction = LaneChangeDirection_right) then
           (if loud_blindspot_alert env then Events_add ''laneChangeBlockedLoud'' evs
            else Events_add ''laneChangeBlocked'' evs)
         else if direction = LaneChangeDirection_left then
           (if laneWidthLeft sm \<ge> lane_detection_width env
            then Events_add ''preLaneChangeLeft'' evs
            else Events_add ''noLaneAvailable'' evs)
         else
           (if laneWidthRight sm \<ge> lane_detection_width env
            then Events_add ''preLaneChangeRight'' evs
            else Events_add ''noLaneAvailable'' evs))
      else if laneChangeState sm \<in> {LaneChangeState_laneChangeStarting,
                                      LaneChangeState_laneChangeFinishing} then
        Events_add ''laneChange'' evs
      else evs)"

text \<open>
  Lines 334 to 348: the loop over \<^verbatim>\<open>enumerate(self.sm['pandaStates'])\<close>; \<open>i\<close> is the
  index of the head of the list, \<open>mc\<close> is \<^verbatim>\<open>self.mismatch_counter\<close>.
\<close>

fun panda_events ::
  "CarParams \<Rightarrow> SubMaster \<Rightarrow> int \<Rightarrow> nat \<Rightarrow> PandaState list \<Rightarrow> EventName list \<Rightarrow> EventName list"
where
  "panda_events CP sm mc i [] evs = evs"
| "panda_events CP sm mc i (pandaState # rest) evs =
     (let safety_mismatch =
            (if i < length (safetyConfigs CP) then
               safetyModel pandaState \<noteq> fst (safetyConfigs CP ! i)
               \<or> safetyParam pandaState \<noteq> snd (safetyConfigs CP ! i)
               \<or> alternativeExperience pandaState \<noteq> CP_alternativeExperience CP
             else safetyModel pandaState \<notin> set IGNORED_SAFETY_MODES);
          evs1 = add_if
                   ((safety_mismatch \<and> of_int (frame sm) * DT_CTRL > 10)
                    \<or> safetyRxChecksInvalid pandaState \<or> mc \<ge> 200)
                   ''controlsMismatch'' evs;
          evs2 = add_if (FaultType_relayMalfunction \<in> set (faults pandaState))
                   ''relayMalfunction'' evs1
      in panda_events CP sm mc (Suc i) rest evs2)"

text \<open>
  Lines 350 to 377: hardware and system malfunctions. \<^verbatim>\<open>recv_frame['managerState']\<close>
  is tested for being non-zero, the set difference for being non-empty.
\<close>

definition IGNORE_PROCESSES :: "string list" where
  "IGNORE_PROCESSES = [''loggerd'', ''encoderd'', ''statsd'']"

definition system_events ::
  "Env \<Rightarrow> SubMaster \<Rightarrow> CarState \<Rightarrow> EventName list \<Rightarrow> EventName list"
where
  "system_events env sm CS evs0 =
     (let not_running = map fst (filter (\<lambda>(name, running, should). \<not> running \<and> should)
                                   (processes sm));
          evs1 =
            (if recv_frame_managerState sm \<noteq> 0
                \<and> list_ex (\<lambda>name. name \<notin> set IGNORE_PROCESSES) not_running then
               Events_add ''processNotRunning'' evs0
             else if \<not> SIMULATION env \<and> \<not> rk_lagging env then
               (if \<not> camera_all_alive sm then Events_add ''cameraMalfunction'' evs0
                else if \<not> camera_all_freq_ok sm then Events_add ''cameraFrameRate'' evs0
                else evs0)
             else evs0);
          evs2 = add_if (\<not> REPLAY env \<and> rk_lagging env) ''controlsdLagging'' evs1;
          evs3 = add_if
                   (\<not> radarless_model env
                    \<and> (length (radarErrors sm) \<noteq> 0
                        \<or> (\<not> rk_lagging env \<and> \<not> radarState_all_checks sm)))
                   ''radarFault'' evs2;
          evs4 = add_if (\<not> valid_pandaStates sm) ''usbError'' evs3
      in if canTimeout CS then Events_add ''canBusMissing'' evs4
         else if \<not> canValid CS then Events_add ''canError'' evs4
         else evs4)"

text \<open>
  Lines 379 to 400: the catch-all; \<open>num_events\<close> is the length of the collection before
  the system events were added.
\<close>

definition comm_issue_events ::
  "(EventName \<Rightarrow> ET set) \<Rightarrow> Env \<Rightarrow> SubMaster \<Rightarrow> nat \<Rightarrow> EventName list \<Rightarrow> EventName list"
where
  "comm_issue_events EVENTS env sm num_events evs =
     (let has_disable_events =
            (Events_contains EVENTS evs NO_ENTRY
             \<and> (Events_contains EVENTS evs SOFT_DISABLE
                 \<or> Events_contains EVENTS evs IMMEDIATE_DISABLE));
          no_system_errors = (\<not> has_disable_events \<or> length evs = num_events)
      in if (\<not> all_checks sm \<or> can_rcv_timeout env) \<and> no_system_errors then
           (if \<not> all_alive sm then Events_add ''commIssue'' evs
            else if \<not> all_freq_ok sm then Events_add ''commIssueAvgFreq'' evs
            else Events_add ''commIssue'' evs)
         else evs)"

text \<open>Lines 402 to 414: localization and sensor staleness.\<close>

definition localization_events ::
  "CarParams \<Rightarrow> Env \<Rightarrow> SubMaster \<Rightarrow> EventName list \<Rightarrow> EventName list"
where
  "localization_events CP env sm evs0 =
     (let checked = \<not> (notCar CP \<and> joystick_mode env);
          evs1 = add_if (checked \<and> \<not> posenetOK sm) ''posenetInvalid'' evs0;
          evs2 = add_if (checked \<and> \<not> deviceStable sm) ''deviceFalling'' evs1;
          evs3 = add_if (checked \<and> \<not> inputsOK sm) ''locationdTemporaryError'' evs2;
          evs4 = add_if
                   (checked \<and> \<not> liveParameters_valid sm \<and> \<not> TESTING_CLOSET env
                    \<and> (\<not> SIMULATION env \<or> REPLAY env))
                   ''paramsdTemporaryError'' evs3
      in add_if
           (list_ex (\<lambda>r. of_int (frame sm - r) * DT_CTRL > 10) (recv_frame_sensors sm))
           ''sensorDataInvalid'' evs4)"

text \<open>
  Lines 416 to 421: the cruise mismatch counter and its event; \<open>en\<close> is
  \<^verbatim>\<open>self.enabled\<close>, \<open>cmc\<close> the counter before the cycle.
\<close>

definition cruise_mismatch_next :: "CarParams \<Rightarrow> Env \<Rightarrow> CarState \<Rightarrow> bool \<Rightarrow> int \<Rightarrow> int" where
  "cruise_mismatch_next CP env CS en cmc =
     (if \<not> REPLAY env then
        (if cruiseState_enabled CS \<and> (\<not> en \<or> \<not> pcmCruise CP) then cmc + 1 else 0)
      else cmc)"

definition cruise_mismatch_events ::
  "CarParams \<Rightarrow> Env \<Rightarrow> CarState \<Rightarrow> bool \<Rightarrow> int \<Rightarrow> EventName list \<Rightarrow> EventName list"
where
  "cruise_mismatch_events CP env CS en cmc evs =
     add_if (\<not> REPLAY env \<and> cruise_mismatch_next CP env CS en cmc > py_int (6 / DT_CTRL))
       ''cruiseMismatch'' evs"

text \<open>Lines 423 to 432: forward collision warning.\<close>

definition fcw_events ::
  "CarParams \<Rightarrow> Env \<Rightarrow> FrogPilot \<Rightarrow> SubMaster \<Rightarrow> CarState \<Rightarrow> bool \<Rightarrow> EventName list
     \<Rightarrow> EventName list"
where
  "fcw_events CP env fp sm CS en evs =
     (let stock_long_is_braking =
            (en \<and> \<not> openpilotLongitudinalControl CP \<and> aEgo CS < - (5 / 4));
          model_fcw =
            (hardBrakePredicted sm \<and> \<not> brakePressed CS \<and> \<not> stock_long_is_braking);
          planner_fcw = (longitudinalPlan_fcw sm \<and> en)
      in if planner_fcw \<or> model_fcw then Events_add ''fcw'' evs
         else if fcw_random_event_triggered env \<and> random_events fp then
           Events_add ''yourFrogTriedToKillMe'' evs
         else evs)"

text \<open>Lines 434 to 443: camera errors reported in the system log.\<close>

definition CSID_MAP :: "string \<Rightarrow> EventName option" where
  "CSID_MAP csid =
     (if csid = ''1'' then Some ''roadCameraError''
      else if csid = ''2'' then Some ''wideRoadCameraError''
      else if csid = ''0'' then Some ''driverCameraError''
      else None)"

fun camera_error_events :: "string list \<Rightarrow> EventName list \<Rightarrow> EventName list" where
  "camera_error_events [] evs = evs"
| "camera_error_events (csid # csids) evs =
     camera_error_events csids
       (case CSID_MAP csid of None \<Rightarrow> evs | Some evt \<Rightarrow> Events_add evt evs)"

text \<open>Lines 445 to 455: GPS and model lag.\<close>

definition gps_events :: "Env \<Rightarrow> SubMaster \<Rightarrow> EventName list \<Rightarrow> EventName list" where
  "gps_events env sm evs0 =
     (if \<not> SIMULATION env \<or> REPLAY env then
        (let evs1 = add_if (\<not> gpsOK sm \<and> inputsOK sm \<and> distance_traveled env > 1000)
                      ''noGps'' evs0
         in add_if (frameDropPerc sm > 20) ''modeldLagging'' evs1)
      else evs0)"

text \<open>
  \<^verbatim>\<open>update_frogpilot_events\<close> (lines 938 to 1071), called last. \<open>max_acceleration fp\<close> is
  the stored maximum before the cycle; lines 946 to 949 update it before it is tested.
\<close>

definition random_accel_events :: "FrogPilot \<Rightarrow> CarState \<Rightarrow> EventName list \<Rightarrow> EventName list" where
  "random_accel_events fp CS evs =
     (let acceleration = aEgo CS;
          m = (if \<not> gasPressed CS then max acceleration (max_acceleration fp) else 0)
      in if 7 / 2 > m \<and> m \<ge> 3 \<and> acceleration < 3 / 2 then Events_add ''accel30'' evs
         else if 4 > m \<and> m \<ge> 7 / 2 \<and> acceleration < 3 / 2 then Events_add ''accel35'' evs
         else if m \<ge> 4 \<and> acceleration < 3 / 2 then Events_add ''accel40'' evs
         else evs)"

definition update_frogpilot_events ::
  "CarParams \<Rightarrow> FrogPilot \<Rightarrow> SubMaster \<Rightarrow> CarState \<Rightarrow> EventName list \<Rightarrow> EventName list"
where
  "update_frogpilot_events CP fp sm CS evs0 =
     (if block_user fp then Events_add ''blockUser'' evs0
      else
        (let evs1 = (if random_events fp then random_accel_events fp CS evs0 else evs0);
             evs2 = add_if (green_light_alert fp \<and> green_light_average fp) ''greenLight'' evs1;
             evs3 = add_if (frame sm \<ge> 1000 \<and> holiday_themes fp \<and> holiday_due fp)
                      ''holidayActive'' evs2;
             evs4 = add_if
                      (lead_departing_alert fp \<and> frame sm mod 50 = 0 \<and> lead_departing fp)
                      ''leadDeparting'' evs3;
             evs5 = (if \<not> standstill CS then
                       (if turnDirection sm = Desire_turnLeft then
                          Events_add ''turningLeft'' evs4
                        else if turnDirection sm = Desire_turnRight then
                          Events_add ''turningRight'' evs4
                        else evs4)
                     else evs4);
             evs6 = (if crash_file_new fp then
                       (if random_events fp
                        then Events_add ''openpilotCrashedRandomEvents'' evs5
                        else Events_add ''openpilotCrashed'' evs5)
                     else evs5);
             evs7 = add_if
                      ((speed_limit_alert fp \<or> speed_limit_confirmation fp)
                       \<and> (speed_limit_changed_lower fp \<or> speed_limit_changed_higher fp)
                       \<and> speed_limit_alert fp)
                      ''speedLimitChanged'' evs6;
             evs8 = add_if (frame sm = 550 \<and> lateralTuning_torque CP \<and> use_nnff fp)
                      ''torqueNNLoad'' evs7
         in add_if
              (random_events fp \<and> 70 > v_cruise fp \<and> v_cruise fp \<ge> 69
               \<and> \<not> vCruise69_alert_played fp)
              ''vCruise69'' evs8))"

text \<open>
  Everything after the two early returns, in the order of the source. \<open>en\<close> and \<open>mc\<close>
  are \<^verbatim>\<open>self.enabled\<close> and \<^verbatim>\<open>self.mismatch_counter\<close>, \<open>cmc\<close> the cruise mismatch
  counter before the cycle.
\<close>

definition onroad_events ::
  "(EventName \<Rightarrow> ET set) \<Rightarrow> CarParams \<Rightarrow> Env \<Rightarrow> FrogPilot \<Rightarrow> SubMaster \<Rightarrow> CarState \<Rightarrow> CarState
     \<Rightarrow> bool \<Rightarrow> int \<Rightarrow> int \<Rightarrow> EventName list \<Rightarrow> EventName list"
where
  "onroad_events EVENTS CP env fp sm CS prev en mc cmc evs0 =
     (let evs1 = pedal_events CP env sm CS prev evs0;
          evs2 = device_events env sm evs1;
          evs3 = calibration_events sm evs2;
          evs4 = lane_change_events env sm CS evs3;
          evs5 = panda_events CP sm mc 0 (pandaStates sm) evs4;
          num_events = length evs5;
          evs6 = system_events env sm CS evs5;
          evs7 = comm_issue_events EVENTS env sm num_events evs6;
          evs8 = localization_events CP env sm evs7;
          evs9 = cruise_mismatch_events CP env CS en cmc evs8;
          evs10 = fcw_events CP env fp sm CS en evs9;
          evs11 = camera_error_events (camera_error_csids env) evs10;
          evs12 = gps_events env sm evs11
      in update_frogpilot_events CP fp sm CS evs12)"

text \<open>
  The method: the collection is cleared to the static events, the joystick and startup
  events are added, and the two early returns (not initialized, dashcam mode) come
  before everything else.
\<close>

definition update_events ::
  "(EventName \<Rightarrow> ET set) \<Rightarrow> CarParams \<Rightarrow> Env \<Rightarrow> FrogPilot \<Rightarrow> SubMaster \<Rightarrow> CarState
     \<Rightarrow> Controls \<Rightarrow> Controls"
where
  "update_events EVENTS CP env fp sm CS self0 =
     (let evs0 = static_events self0;
          evs1 = add_if (joystick_mode env) ''joystickDebug'' evs0;
          startup = (if joystick_mode env then None else startup_event self0);
          evs2 = (case startup of None \<Rightarrow> evs1 | Some e \<Rightarrow> Events_add e evs1);
          self1 = self0\<lparr>startup_event := None\<rparr>
      in if \<not> initialized self1 then
           self1\<lparr>events := Events_add ''controlsInitializing'' evs2\<rparr>
         else if CP_passive CP then self1\<lparr>events := evs2\<rparr>
         else
           self1\<lparr>events :=
                   onroad_events EVENTS CP env fp sm CS (CS_prev self1) (enabled self1)
                     (mismatch_counter self1) (cruise_mismatch_counter self1) evs2,
                 cruise_mismatch_counter :=
                   cruise_mismatch_next CP env CS (enabled self1)
                     (cruise_mismatch_counter self1)\<rparr>)"

subsection \<open>\<^verbatim>\<open>Controls.data_sample\<close>\<close>

text \<open>Lines 215 to 223; the replayed cruise speed belongs to the cruise-speed helper.\<close>

definition set_initial_state :: "Env \<Rightarrow> SubMaster \<Rightarrow> Controls \<Rightarrow> Controls" where
  "set_initial_state env sm self =
     (if REPLAY env then
        (if list_ex controlsAllowed (pandaStates sm) then self\<lparr>state := State_enabled\<rparr>
         else self)
      else self)"

text \<open>
  The car state \<open>CS\<close> that the method obtains from the car interface and returns is an
  argument here. The camera stream probe, the arming of the car interface and the log
  entry write nothing that is modelled.
\<close>

definition data_sample :: "Env \<Rightarrow> SubMaster \<Rightarrow> CarState \<Rightarrow> Controls \<Rightarrow> Controls" where
  "data_sample env sm CS self0 =
     (let self1 =
            (if \<not> initialized self0 then
               (let all_valid = (canValid CS \<and> all_checks sm);
                    timed_out = (of_int (frame sm) * DT_CTRL > 6)
                in if all_valid \<or> timed_out \<or> (SIMULATION env \<and> \<not> REPLAY env) then
                     set_initial_state env sm (self0\<lparr>initialized := True\<rparr>)
                   else self0)
             else self0);
          self2 = (if \<not> enabled self1 then self1\<lparr>mismatch_counter := 0\<rparr> else self1)
      in if enabled self2
            \<and> list_ex (\<lambda>ps. \<not> controlsAllowed ps)
                (filter (\<lambda>ps. safetyModel ps \<notin> set IGNORED_SAFETY_MODES) (pandaStates sm))
         then self2\<lparr>mismatch_counter := mismatch_counter self2 + 1\<rparr>
         else self2)"

subsection \<open>\<^verbatim>\<open>Controls.step\<close>\<close>

text \<open>
  One cycle's inputs, and the cycle up to the state transition followed by
  \<^verbatim>\<open>self.CS_prev = CS\<close>. Of the fields modelled here, \<^verbatim>\<open>state_control\<close> and
  \<^verbatim>\<open>publish_logs\<close> only add further events to the collection (the steering saturation
  events and \<^verbatim>\<open>ldw\<close>), which the next cycle clears.
\<close>

record Cycle =
  cy_env :: Env
  cy_fp :: FrogPilot
  cy_sm :: SubMaster
  cy_CS :: CarState

definition step :: "(EventName \<Rightarrow> ET set) \<Rightarrow> CarParams \<Rightarrow> Cycle \<Rightarrow> Controls \<Rightarrow> Controls" where
  "step EVENTS CP cy self0 =
     (let self1 = data_sample (cy_env cy) (cy_sm cy) (cy_CS cy) self0;
          self2 = update_events EVENTS CP (cy_env cy) (cy_fp cy) (cy_sm cy) (cy_CS cy) self1;
          self3 = (if \<not> CP_passive CP \<and> initialized self2
                   then state_transition EVENTS (alwaysOnLateral (cy_env cy)) self2
                   else self2)
      in self3\<lparr>CS_prev := cy_CS cy\<rparr>)"

text \<open>\<^verbatim>\<open>controlsd_thread\<close>: the cycles run one after the other.\<close>

fun run :: "(EventName \<Rightarrow> ET set) \<Rightarrow> CarParams \<Rightarrow> Cycle list \<Rightarrow> Controls \<Rightarrow> Controls" where
  "run EVENTS CP [] self = self"
| "run EVENTS CP (cy # cys) self = run EVENTS CP cys (step EVENTS CP cy self)"

subsection \<open>The actuator check of \<^verbatim>\<open>Controls.state_control\<close>\<close>

text \<open>
  Lines 717 to 725. A Python float is a finite number, an infinity or a NaN; only that
  classification is read, by \<^verbatim>\<open>math.isfinite\<close>. A field of the actuators message holds
  a float or a value that is no \<^verbatim>\<open>SupportsFloat\<close> (the enum \<^verbatim>\<open>longControlState\<close>). The
  message is a function from field names to values, as \<^verbatim>\<open>getattr\<close> reads it; the schema's
  field names \<^verbatim>\<open>ACTUATOR_FIELDS\<close> come from cereal and are a parameter. A log entry is the
  field named in the message together with the actuators as \<^verbatim>\<open>to_dict\<close> prints them.
\<close>

datatype pyfloat = Finite rat | PosInf | NegInf | NaN

fun isfinite :: "pyfloat \<Rightarrow> bool" where
  "isfinite (Finite x) = True"
| "isfinite PosInf = False"
| "isfinite NegInf = False"
| "isfinite NaN = False"

datatype attr = Float pyfloat | NotFloat string

type_synonym Actuators = "string \<Rightarrow> attr"

fun sanitize ::
  "string list \<Rightarrow> Actuators \<Rightarrow> (string \<times> Actuators) list
     \<Rightarrow> Actuators \<times> (string \<times> Actuators) list"
where
  "sanitize [] actuators logged = (actuators, logged)"
| "sanitize (p # ps) actuators logged =
     (case actuators p of
        NotFloat v \<Rightarrow> sanitize ps actuators logged
      | Float x \<Rightarrow>
          if \<not> isfinite x then
            sanitize ps (actuators(p := Float (Finite 0))) (logged @ [(p, actuators)])
          else sanitize ps actuators logged)"

text \<open>A value that the check replaces: a float that is not finite.\<close>

fun not_finite :: "attr \<Rightarrow> bool" where
  "not_finite (Float x) = (\<not> isfinite x)"
| "not_finite (NotFloat v) = False"

subsection \<open>Concrete inputs\<close>

text \<open>
  A small category table and a controller state for concrete evaluations. The table is
  an example of a configuration, not the repository's \<^verbatim>\<open>EVENTS\<close>.
\<close>

definition example_EVENTS :: "EventName \<Rightarrow> ET set" where
  "example_EVENTS e =
     (if e = ''buttonEnable'' then {ENABLE}
      else if e = ''pedalPressed'' then {USER_DISABLE, NO_ENTRY}
      else if e = ''controlsMismatch'' then {IMMEDIATE_DISABLE, NO_ENTRY}
      else if e = ''overheat'' then {SOFT_DISABLE, NO_ENTRY}
      else if e = ''preEnableStandstill'' then {PRE_ENABLE}
      else if e = ''gasPressedOverride'' then {OVERRIDE_LONGITUDINAL}
      else if e = ''steerOverride'' then {OVERRIDE_LATERAL}
      else {})"

definition example_self :: "State \<Rightarrow> int \<Rightarrow> EventName list \<Rightarrow> Controls" where
  "example_self s t evs =
     \<lparr> initialized = True, state = s, enabled = s \<in> set ENABLED_STATES,
       active = s \<in> set ACTIVE_STATES, soft_disable_timer = t, mismatch_counter = 0,
       cruise_mismatch_counter = 0, events = evs, static_events = [],
       startup_event = None, current_alert_types = [PERMANENT],
       CS_prev = CarState_new \<rparr>"

text \<open>
  A car whose one safety channel has the expected configuration and does not allow
  controls, with every health check passing and an enable event from the car.
\<close>

definition example_panda :: PandaState where
  "example_panda =
     \<lparr> safetyModel = SafetyModel_other 5, safetyParam = 0, alternativeExperience = 0,
       controlsAllowed = False, safetyRxChecksInvalid = False, faults = [] \<rparr>"

definition example_CP :: CarParams where
  "example_CP =
     \<lparr> CP_passive = False, pcmCruise = True, notCar = False,
       openpilotLongitudinalControl = True, safetyConfigs = [(SafetyModel_other 5, 0)],
       CP_alternativeExperience = 0, lateralTuning_torque = True \<rparr>"

definition example_CS :: CarState where
  "example_CS = CarState_new\<lparr>canValid := True, carEvents := [''buttonEnable'']\<rparr>"

definition example_env :: Env where
  "example_env =
     \<lparr> SIMULATION = False, REPLAY = False, TESTING_CLOSET = False, joystick_mode = False,
       disengage_on_accelerator = True, increase_thermal_limits = False,
       loud_blindspot_alert = False, radarless_model = False, rk_lagging = False,
       can_rcv_timeout = False, v_cruise_initialized = True, lane_detection_width = 0,
       last_functional_fan_frame = 0, distance_traveled = 0,
       fcw_random_event_triggered = False, camera_error_csids = [],
       alwaysOnLateral = False \<rparr>"

definition example_fp :: FrogPilot where
  "example_fp =
     \<lparr> block_user = False, random_events = False, max_acceleration = 0,
       green_light_alert = False, green_light_average = False, holiday_themes = False,
       holiday_due = False, lead_departing_alert = False, lead_departing = False,
       crash_file_new = False, speed_limit_alert = False, speed_limit_confirmation = False,
       speed_limit_changed_lower = False, speed_limit_changed_higher = False,
       use_nnff = False, v_cruise = 0, vCruise69_alert_played = False \<rparr>"

definition example_sm :: "int \<Rightarrow> PandaState list \<Rightarrow> SubMaster" where
  "example_sm fr pss =
     \<lparr> frame = fr, all_checks = True, all_alive = True, all_freq_ok = True,
       camera_all_alive = True, camera_all_freq_ok = True, radarState_all_checks = True,
       valid_pandaStates = True, recv_frame_managerState = fr,
       recv_frame_sensors = [fr, fr], pandaStates = pss, processes = [],
       radarErrors = [], driverMonitoringState_events = [],
       thermalStatus = ThermalStatus_green, freeSpacePercent = 50,
       memoryUsagePercent = 30, fanSpeedPercentDesired = 0, pandaType_unknown = False,
       fanSpeedRpm = 1000, calStatus = CalStatus_calibrated,
       laneChangeState = LaneChangeState_off,
       laneChangeDirection = LaneChangeDirection_none, turnDirection = Desire_none,
       hardBrakePredicted = False, frameDropPerc = 0, laneWidthLeft = 3,
       laneWidthRight = 3, posenetOK = True, deviceStable = True, inputsOK = True,
       gpsOK = True, liveParameters_valid = True, longitudinalPlan_fcw = False \<rparr>"

text \<open>The cycle with frame number \<open>k\<close>, and the state that engaging on such cycles leads to.\<close>

definition example_cycle :: "nat \<Rightarrow> Cycle" where
  "example_cycle k =
     \<lparr> cy_env = example_env, cy_fp = example_fp,
       cy_sm = example_sm (int k) [example_panda], cy_CS = example_CS \<rparr>"

definition example_engaged :: "int \<Rightarrow> ET list \<Rightarrow> Controls" where
  "example_engaged mc ats =
     \<lparr> initialized = True, state = State_enabled, enabled = True, active = True,
       soft_disable_timer = 0, mismatch_counter = mc, cruise_mismatch_counter = 0,
       events = [''buttonEnable''], static_events = [], startup_event = None,
       current_alert_types = ats, CS_prev = example_CS \<rparr>"

text \<open>
  The actuator fields of the cereal schema, and a command whose acceleration is NaN.
\<close>

definition example_ACTUATOR_FIELDS :: "string list" where
  "example_ACTUATOR_FIELDS =
     [''gas'', ''brake'', ''steer'', ''steerOutputCan'', ''steeringAngleDeg'', ''curvature'',
      ''speed'', ''accel'', ''longControlState'']"

definition example_actuators :: Actuators where
  "example_actuators =
     (\<lambda>p. Float (Finite 0))
       (''accel'' := Float NaN, ''steer'' := Float (Finite (2 / 5)),
        ''longControlState'' := NotFloat ''pid'')"

section \<open>Properties of the state machine\<close>

lemma soft_disable_ticks: "py_int (SOFT_DISABLE_TIME / DT_CTRL) = 300"
  by (simp add: py_int_def SOFT_DISABLE_TIME_def DT_CTRL_def)

lemma contains_timer [simp]:
  "contains EVENTS (self\<lparr>soft_disable_timer := t\<rparr>) et = contains EVENTS self et"
  by (simp add: contains_def)

lemma contains_alerts [simp]:
  "contains EVENTS (self\<lparr>current_alert_types := a\<rparr>) et = contains EVENTS self et"
  by (simp add: contains_def)

lemma contains_state [simp]:
  "contains EVENTS (self\<lparr>state := s\<rparr>) et = contains EVENTS self et"
  by (simp add: contains_def)

lemma alert_fields [simp]:
  "state (alert ets self) = state self"
  "soft_disable_timer (alert ets self) = soft_disable_timer self"
  "events (alert ets self) = events self"
  "active (alert ets self) = active self"
  "enabled (alert ets self) = enabled self"
  by (simp_all add: alert_def)

text \<open>The next state and the next timer, read off the method.\<close>

lemma state_state_transition:
  "state (state_transition EVENTS aol self) =
     (if state self \<noteq> State_disabled then
        (if contains EVENTS self USER_DISABLE \<or> contains EVENTS self IMMEDIATE_DISABLE
         then State_disabled
         else state (transition_engaged EVENTS
                (self\<lparr>soft_disable_timer := max 0 (soft_disable_timer self - 1),
                      current_alert_types := [PERMANENT]\<rparr>)))
      else state (transition_disabled EVENTS
                (self\<lparr>soft_disable_timer := max 0 (soft_disable_timer self - 1),
                      current_alert_types := [PERMANENT]\<rparr>)))"
  by (simp add: state_transition_def Let_def)

lemma timer_state_transition:
  "soft_disable_timer (state_transition EVENTS aol self) =
     (if state self \<noteq> State_disabled \<and> \<not> contains EVENTS self USER_DISABLE
          \<and> \<not> contains EVENTS self IMMEDIATE_DISABLE
          \<and> (state self = State_enabled \<or> state self = State_overriding)
          \<and> contains EVENTS self SOFT_DISABLE
      then py_int (SOFT_DISABLE_TIME / DT_CTRL)
      else max 0 (soft_disable_timer self - 1))"
  by (simp add: state_transition_def Let_def transition_engaged_def transition_disabled_def)

lemma events_state_transition [simp]:
  "events (state_transition EVENTS aol self) = events self"
  by (simp add: state_transition_def Let_def transition_engaged_def transition_disabled_def)

lemma contains_state_transition [simp]:
  "contains EVENTS (state_transition EVENTS' aol self) et = contains EVENTS self et"
  by (simp add: contains_def)

lemma example_self_fields [simp]:
  "state (example_self s t evs) = s"
  "soft_disable_timer (example_self s t evs) = t"
  "events (example_self s t evs) = evs"
  by (simp_all add: example_self_def)

lemma contains_example [simp]:
  "contains example_EVENTS (example_self s t evs) et = list_ex (\<lambda>e. et \<in> example_EVENTS e) evs"
  by (simp add: contains_def Events_contains_def)

text \<open>
  C1. In every state other than \<^verbatim>\<open>disabled\<close>, a user-disable or an immediate-disable
  event in the cycle's collection makes the next state \<^verbatim>\<open>disabled\<close>, whatever the
  current state and whatever else the collection holds.
\<close>

theorem disable_preempts:
  assumes "state self \<noteq> State_disabled"
    and "contains EVENTS self USER_DISABLE \<or> contains EVENTS self IMMEDIATE_DISABLE"
  shows "state (state_transition EVENTS aol self) = State_disabled"
  using assms by (simp add: state_state_transition)

theorem disable_preempts_witness:
  "state (example_self State_overriding 0 [''gasPressedOverride'', ''pedalPressed''])
     \<noteq> State_disabled
   \<and> contains example_EVENTS
       (example_self State_overriding 0 [''gasPressedOverride'', ''pedalPressed''])
       USER_DISABLE
   \<and> state (state_transition example_EVENTS False
       (example_self State_overriding 0 [''gasPressedOverride'', ''pedalPressed'']))
     = State_disabled"
  using disable_preempts [of "example_self State_overriding 0
      [''gasPressedOverride'', ''pedalPressed'']" example_EVENTS False]
  by (simp add: example_EVENTS_def)

text \<open>
  C2, as amended. In \<^verbatim>\<open>softDisabling\<close> with a soft-disable event present and no user or
  immediate disable, the timer is decremented (not below 0) before it is tested: the
  next state is \<^verbatim>\<open>disabled\<close> when the timer before the cycle is at most 1, and stays
  \<^verbatim>\<open>softDisabling\<close> otherwise. A timer of 1 therefore ends in \<^verbatim>\<open>disabled\<close> with timer
  0 in that same cycle; a timer of 2 gives \<^verbatim>\<open>softDisabling\<close> with timer 1, and
  \<^verbatim>\<open>disabled\<close> on the following cycle.
\<close>

theorem soft_disable_countdown:
  assumes "state self = State_softDisabling"
    and "contains EVENTS self SOFT_DISABLE"
    and "\<not> contains EVENTS self USER_DISABLE"
    and "\<not> contains EVENTS self IMMEDIATE_DISABLE"
  shows "state (state_transition EVENTS aol self) =
           (if soft_disable_timer self \<le> 1 then State_disabled else State_softDisabling)
         \<and> soft_disable_timer (state_transition EVENTS aol self) =
             max 0 (soft_disable_timer self - 1)"
  using assms
  by (simp add: state_state_transition timer_state_transition transition_engaged_def)

theorem soft_disable_countdown_witness:
  "state (example_self State_softDisabling 2 [''overheat'']) = State_softDisabling
   \<and> contains example_EVENTS (example_self State_softDisabling 2 [''overheat'']) SOFT_DISABLE
   \<and> \<not> contains example_EVENTS (example_self State_softDisabling 2 [''overheat'']) USER_DISABLE
   \<and> \<not> contains example_EVENTS (example_self State_softDisabling 2 [''overheat''])
         IMMEDIATE_DISABLE
   \<and> state (state_transition example_EVENTS False
         (example_self State_softDisabling 2 [''overheat''])) = State_softDisabling
   \<and> soft_disable_timer (state_transition example_EVENTS False
         (example_self State_softDisabling 2 [''overheat''])) = 1
   \<and> state (state_transition example_EVENTS False
         (example_self State_softDisabling 1 [''overheat''])) = State_disabled
   \<and> soft_disable_timer (state_transition example_EVENTS False
         (example_self State_softDisabling 1 [''overheat''])) = 0"
  using soft_disable_countdown [of "example_self State_softDisabling 2 [''overheat'']"
      example_EVENTS False]
    soft_disable_countdown [of "example_self State_softDisabling 1 [''overheat'']"
      example_EVENTS False]
  by (simp add: example_EVENTS_def)

text \<open>
  C2, as stated, fails: from \<^verbatim>\<open>softDisabling\<close> with timer 1 and a soft-disable event
  the state after the cycle is not \<^verbatim>\<open>softDisabling\<close>.
\<close>

theorem soft_disable_timer_one_counterexample:
  "\<not> (state (state_transition example_EVENTS False
          (example_self State_softDisabling 1 [''overheat''])) = State_softDisabling
      \<and> soft_disable_timer (state_transition example_EVENTS False
          (example_self State_softDisabling 1 [''overheat''])) = 0)"
  by (simp add: state_state_transition transition_engaged_def example_EVENTS_def)

text \<open>
  C3. Entering \<^verbatim>\<open>softDisabling\<close> from \<^verbatim>\<open>enabled\<close> or from \<^verbatim>\<open>overriding\<close>, on a
  soft-disable event with no user or immediate disable, sets the timer to
  \<^verbatim>\<open>int(SOFT_DISABLE_TIME / DT_CTRL)\<close>, which is 300, whatever the timer was before.
\<close>

theorem soft_disable_rearm:
  assumes "state self = State_enabled \<or> state self = State_overriding"
    and "contains EVENTS self SOFT_DISABLE"
    and "\<not> contains EVENTS self USER_DISABLE"
    and "\<not> contains EVENTS self IMMEDIATE_DISABLE"
  shows "state (state_transition EVENTS aol self) = State_softDisabling
     \<and> soft_disable_timer (state_transition EVENTS aol self)
         = py_int (SOFT_DISABLE_TIME / DT_CTRL)
     \<and> soft_disable_timer (state_transition EVENTS aol self) = 300"
  using assms
  by (auto simp add: state_state_transition timer_state_transition transition_engaged_def
      soft_disable_ticks)

theorem soft_disable_rearm_witness:
  "(state (example_self State_overriding 17 [''overheat'']) = State_enabled
      \<or> state (example_self State_overriding 17 [''overheat'']) = State_overriding)
   \<and> contains example_EVENTS (example_self State_overriding 17 [''overheat'']) SOFT_DISABLE
   \<and> \<not> contains example_EVENTS (example_self State_overriding 17 [''overheat'']) USER_DISABLE
   \<and> \<not> contains example_EVENTS (example_self State_overriding 17 [''overheat''])
         IMMEDIATE_DISABLE
   \<and> state (state_transition example_EVENTS False
         (example_self State_overriding 17 [''overheat''])) = State_softDisabling
   \<and> soft_disable_timer (state_transition example_EVENTS False
         (example_self State_overriding 17 [''overheat''])) = 300"
  using soft_disable_rearm [of "example_self State_overriding 17 [''overheat'']"
      example_EVENTS False]
  by (simp add: example_EVENTS_def)

text \<open>
  C4. From \<^verbatim>\<open>disabled\<close> the state changes exactly when the collection holds an enable
  event and no no-entry event; the target is then \<^verbatim>\<open>preEnabled\<close> if a pre-enable event
  is present, else \<^verbatim>\<open>overriding\<close> if a lateral or longitudinal override is present,
  else \<^verbatim>\<open>enabled\<close>.
\<close>

theorem disabled_exit:
  assumes "state self = State_disabled"
  shows "(state (state_transition EVENTS aol self) \<noteq> State_disabled
           \<longleftrightarrow> contains EVENTS self ENABLE \<and> \<not> contains EVENTS self NO_ENTRY)
     \<and> (contains EVENTS self ENABLE \<and> \<not> contains EVENTS self NO_ENTRY \<longrightarrow>
          state (state_transition EVENTS aol self) =
            (if contains EVENTS self PRE_ENABLE then State_preEnabled
             else if contains EVENTS self OVERRIDE_LATERAL
                     \<or> contains EVENTS self OVERRIDE_LONGITUDINAL then State_overriding
             else State_enabled))"
  using assms by (simp add: state_state_transition transition_disabled_def)

theorem disabled_exit_witness:
  "state (example_self State_disabled 0 [''buttonEnable'', ''preEnableStandstill''])
     = State_disabled
   \<and> contains example_EVENTS
       (example_self State_disabled 0 [''buttonEnable'', ''preEnableStandstill'']) ENABLE
   \<and> \<not> contains example_EVENTS
       (example_self State_disabled 0 [''buttonEnable'', ''preEnableStandstill'']) NO_ENTRY
   \<and> state (state_transition example_EVENTS False
       (example_self State_disabled 0 [''buttonEnable'', ''preEnableStandstill'']))
     = State_preEnabled
   \<and> state (state_transition example_EVENTS False
       (example_self State_disabled 0 [''buttonEnable'', ''pedalPressed'']))
     = State_disabled"
  using disabled_exit [of "example_self State_disabled 0
      [''buttonEnable'', ''preEnableStandstill'']" example_EVENTS False]
    disabled_exit [of "example_self State_disabled 0
      [''buttonEnable'', ''pedalPressed'']" example_EVENTS False]
  by (simp add: example_EVENTS_def)

text \<open>
  C8. From \<^verbatim>\<open>enabled\<close>, with a collection that holds no user-disable,
  immediate-disable, soft-disable or override event, any number of transitions on that
  collection leaves the state \<^verbatim>\<open>enabled\<close>.
\<close>

theorem enabled_stable:
  assumes "state self = State_enabled"
    and "\<not> contains EVENTS self USER_DISABLE"
    and "\<not> contains EVENTS self IMMEDIATE_DISABLE"
    and "\<not> contains EVENTS self SOFT_DISABLE"
    and "\<not> contains EVENTS self OVERRIDE_LATERAL"
    and "\<not> contains EVENTS self OVERRIDE_LONGITUDINAL"
  shows "state (repeat_transition EVENTS aols self) = State_enabled"
  using assms
proof (induction aols arbitrary: self)
  case Nil
  then show ?case by simp
next
  case (Cons aol aols)
  have "state (state_transition EVENTS aol self) = State_enabled"
    using Cons.prems by (simp add: state_state_transition transition_engaged_def)
  then show ?case
    using Cons.prems by (simp add: Cons.IH)
qed

theorem enabled_stable_witness:
  "state (example_self State_enabled 0 [''buttonEnable'']) = State_enabled
   \<and> \<not> contains example_EVENTS (example_self State_enabled 0 [''buttonEnable'']) USER_DISABLE
   \<and> \<not> contains example_EVENTS (example_self State_enabled 0 [''buttonEnable''])
         IMMEDIATE_DISABLE
   \<and> \<not> contains example_EVENTS (example_self State_enabled 0 [''buttonEnable'']) SOFT_DISABLE
   \<and> \<not> contains example_EVENTS (example_self State_enabled 0 [''buttonEnable''])
         OVERRIDE_LATERAL
   \<and> \<not> contains example_EVENTS (example_self State_enabled 0 [''buttonEnable''])
         OVERRIDE_LONGITUDINAL
   \<and> state (repeat_transition example_EVENTS [False, True, False]
         (example_self State_enabled 0 [''buttonEnable''])) = State_enabled"
  using enabled_stable [of "example_self State_enabled 0 [''buttonEnable'']"
      example_EVENTS "[False, True, False]"]
  by (simp add: example_EVENTS_def)

section \<open>Properties of the actuator check\<close>

lemma sanitize_value:
  "fst (sanitize ps a lg) p =
     (if p \<in> set ps \<and> not_finite (a p) then Float (Finite 0) else a p)"
proof (induction ps arbitrary: a lg)
  case Nil
  then show ?case by simp
next
  case (Cons q ps)
  show ?case
  proof (cases "a q")
    case (Float x)
    then show ?thesis using Cons.IH by (cases x) auto
  next
    case (NotFloat v)
    then show ?thesis using Cons.IH by auto
  qed
qed

lemma sanitize_logged:
  "fst ` set (snd (sanitize ps a lg)) = fst ` set lg \<union> {p \<in> set ps. not_finite (a p)}"
proof (induction ps arbitrary: a lg)
  case Nil
  then show ?case by simp
next
  case (Cons q ps)
  show ?case
  proof (cases "a q")
    case (Float x)
    then show ?thesis using Cons.IH by (cases x) auto
  next
    case (NotFloat v)
    then show ?thesis using Cons.IH by auto
  qed
qed

text \<open>
  C5. The check over the actuator fields \<open>fs\<close>, started with an empty log: a field of
  \<open>fs\<close> whose value is a NaN or an infinity becomes 0.0 and is named by a log entry; a
  field whose value is finite (or no float) keeps its value; only such replaced fields
  are logged; afterwards no field of \<open>fs\<close> holds a value that is not finite.
\<close>

theorem actuators_sanitized:
  "(p \<in> set fs \<and> not_finite (a p) \<longrightarrow>
      fst (sanitize fs a []) p = Float (Finite 0)
      \<and> p \<in> fst ` set (snd (sanitize fs a [])))
   \<and> (\<not> not_finite (a p) \<longrightarrow> fst (sanitize fs a []) p = a p)
   \<and> (p \<in> fst ` set (snd (sanitize fs a [])) \<longrightarrow> p \<in> set fs \<and> not_finite (a p))
   \<and> (p \<in> set fs \<longrightarrow> \<not> not_finite (fst (sanitize fs a []) p))"
  by (simp add: sanitize_value sanitize_logged)

theorem actuators_sanitized_witness:
  "''accel'' \<in> set example_ACTUATOR_FIELDS
   \<and> not_finite (example_actuators ''accel'')
   \<and> fst (sanitize example_ACTUATOR_FIELDS example_actuators []) ''accel'' = Float (Finite 0)
   \<and> ''accel'' \<in> fst ` set (snd (sanitize example_ACTUATOR_FIELDS example_actuators []))
   \<and> \<not> not_finite (example_actuators ''steer'')
   \<and> fst (sanitize example_ACTUATOR_FIELDS example_actuators []) ''steer''
       = Float (Finite (2 / 5))
   \<and> \<not> not_finite (fst (sanitize example_ACTUATOR_FIELDS example_actuators []) ''accel'')"
proof -
  have fs: "''accel'' \<in> set example_ACTUATOR_FIELDS"
    by (simp add: example_ACTUATOR_FIELDS_def)
  have bad: "not_finite (example_actuators ''accel'')"
    by (simp add: example_actuators_def)
  have good: "\<not> not_finite (example_actuators ''steer'')"
    and val: "example_actuators ''steer'' = Float (Finite (2 / 5))"
    by (simp_all add: example_actuators_def)
  show ?thesis
    using fs bad good val
      actuators_sanitized [of "''accel''" example_ACTUATOR_FIELDS example_actuators]
      actuators_sanitized [of "''steer''" example_ACTUATOR_FIELDS example_actuators]
    by simp
qed

section \<open>Properties of the mismatch counter\<close>

lemma list_ex_filter: "list_ex P (filter Q xs) = list_ex (\<lambda>x. Q x \<and> P x) xs"
  by (induction xs) auto

lemma set_initial_state_fields [simp]:
  "enabled (set_initial_state env sm self) = enabled self"
  "initialized (set_initial_state env sm self) = initialized self"
  "mismatch_counter (set_initial_state env sm self) = mismatch_counter self"
  "soft_disable_timer (set_initial_state env sm self) = soft_disable_timer self"
  by (simp_all add: set_initial_state_def)

lemma data_sample_fields [simp]:
  "enabled (data_sample env sm CS self) = enabled self"
  "soft_disable_timer (data_sample env sm CS self) = soft_disable_timer self"
  by (simp_all add: data_sample_def Let_def)

lemma data_sample_initialized:
  "initialized self \<Longrightarrow> initialized (data_sample env sm CS self)"
  by (simp add: data_sample_def Let_def)

lemma data_sample_mismatch_counter:
  "mismatch_counter (data_sample env sm CS self) =
     (if \<not> enabled self then 0
      else if list_ex (\<lambda>ps. safetyModel ps \<notin> set IGNORED_SAFETY_MODES \<and> \<not> controlsAllowed ps)
                (pandaStates sm)
      then mismatch_counter self + 1
      else mismatch_counter self)"
  by (simp add: data_sample_def Let_def list_ex_filter)

text \<open>
  C7. When \<^verbatim>\<open>self.enabled\<close> is false, \<^verbatim>\<open>data_sample\<close> leaves the mismatch counter at
  0 whatever it was; when it is true and some entry of \<^verbatim>\<open>pandaStates\<close> whose safety model
  is neither silent nor noOutput has \<^verbatim>\<open>controlsAllowed\<close> false, the counter grows by
  exactly 1.
\<close>

theorem mismatch_counter_update:
  "(\<not> enabled self \<longrightarrow> mismatch_counter (data_sample env sm CS self) = 0)
   \<and> (enabled self
        \<and> list_ex (\<lambda>ps. safetyModel ps \<notin> set IGNORED_SAFETY_MODES \<and> \<not> controlsAllowed ps)
            (pandaStates sm)
      \<longrightarrow> mismatch_counter (data_sample env sm CS self) = mismatch_counter self + 1)"
  by (simp add: data_sample_mismatch_counter)

theorem mismatch_counter_update_witness:
  "\<not> enabled ((Controls_init [] None)\<lparr>mismatch_counter := 7\<rparr>)
   \<and> mismatch_counter (data_sample example_env (example_sm 3 [example_panda]) example_CS
        ((Controls_init [] None)\<lparr>mismatch_counter := 7\<rparr>)) = 0
   \<and> enabled (example_engaged 7 [PERMANENT, WARNING])
   \<and> list_ex (\<lambda>ps. safetyModel ps \<notin> set IGNORED_SAFETY_MODES \<and> \<not> controlsAllowed ps)
        (pandaStates (example_sm 3 [example_panda]))
   \<and> mismatch_counter (data_sample example_env (example_sm 3 [example_panda]) example_CS
        (example_engaged 7 [PERMANENT, WARNING])) = 8"
  using
    mismatch_counter_update [of "(Controls_init [] None)\<lparr>mismatch_counter := 7\<rparr>"
      example_env "example_sm 3 [example_panda]" example_CS]
    mismatch_counter_update [of "example_engaged 7 [PERMANENT, WARNING]"
      example_env "example_sm 3 [example_panda]" example_CS]
  by (simp add: Controls_init_def example_engaged_def example_sm_def example_panda_def
      IGNORED_SAFETY_MODES_def)

section \<open>Properties of the event aggregation\<close>

lemma mem_Events_add: "x \<in> set (Events_add e evs) \<longleftrightarrow> x \<in> set evs \<or> x = e"
  by (auto simp add: Events_add_def)

lemma mem_add_if: "x \<in> set (add_if b e evs) \<longleftrightarrow> x \<in> set evs \<or> (b \<and> x = e)"
  by (simp add: add_if_def mem_Events_add)

lemma mem_add_from_msg:
  "x \<in> set (Events_add_from_msg msg evs) \<longleftrightarrow> x \<in> set evs \<or> x \<in> set msg"
  by (auto simp add: Events_add_from_msg_def)

lemmas mem_add = mem_Events_add mem_add_if mem_add_from_msg

text \<open>
  Where \<^verbatim>\<open>controlsMismatch\<close> can come from, part by part: the first part passes on what
  driver monitoring and the car report, every other part but the loop over the pandas
  adds events of other names only.
\<close>

lemma cm_pedal_events:
  "''controlsMismatch'' \<in> set (pedal_events CP env sm CS prev evs) \<longleftrightarrow>
     ''controlsMismatch'' \<in> set evs
     \<or> (\<not> notCar CP \<and> ''controlsMismatch'' \<in> set (driverMonitoringState_events sm))
     \<or> (canValid CS \<and> ''controlsMismatch'' \<in> set (carEvents CS))"
  by (auto simp add: pedal_events_def Let_def mem_add)

lemma cm_device_events:
  "''controlsMismatch'' \<in> set (device_events env sm evs) \<longleftrightarrow> ''controlsMismatch'' \<in> set evs"
  by (simp add: device_events_def Let_def mem_add)

lemma cm_calibration_events:
  "''controlsMismatch'' \<in> set (calibration_events sm evs) \<longleftrightarrow> ''controlsMismatch'' \<in> set evs"
  by (simp add: calibration_events_def mem_add)

lemma cm_lane_change_events:
  "''controlsMismatch'' \<in> set (lane_change_events env sm CS evs)
     \<longleftrightarrow> ''controlsMismatch'' \<in> set evs"
  by (simp add: lane_change_events_def Let_def mem_add)

lemma cm_system_events:
  "''controlsMismatch'' \<in> set (system_events env sm CS evs) \<longleftrightarrow> ''controlsMismatch'' \<in> set evs"
  by (simp add: system_events_def Let_def mem_add)

lemma cm_comm_issue_events:
  "''controlsMismatch'' \<in> set (comm_issue_events EVENTS env sm n evs)
     \<longleftrightarrow> ''controlsMismatch'' \<in> set evs"
  by (simp add: comm_issue_events_def Let_def mem_add)

lemma cm_localization_events:
  "''controlsMismatch'' \<in> set (localization_events CP env sm evs)
     \<longleftrightarrow> ''controlsMismatch'' \<in> set evs"
  by (simp add: localization_events_def Let_def mem_add)

lemma cm_cruise_mismatch_events:
  "''controlsMismatch'' \<in> set (cruise_mismatch_events CP env CS en cmc evs)
     \<longleftrightarrow> ''controlsMismatch'' \<in> set evs"
  by (simp add: cruise_mismatch_events_def mem_add)

lemma cm_fcw_events:
  "''controlsMismatch'' \<in> set (fcw_events CP env fp sm CS en evs)
     \<longleftrightarrow> ''controlsMismatch'' \<in> set evs"
  by (simp add: fcw_events_def Let_def mem_add)

lemma cm_camera_error_events:
  "''controlsMismatch'' \<in> set (camera_error_events csids evs)
     \<longleftrightarrow> ''controlsMismatch'' \<in> set evs"
  by (induction csids arbitrary: evs) (auto simp add: CSID_MAP_def mem_add)

lemma cm_gps_events:
  "''controlsMismatch'' \<in> set (gps_events env sm evs) \<longleftrightarrow> ''controlsMismatch'' \<in> set evs"
  by (simp add: gps_events_def Let_def mem_add)

lemma cm_random_accel_events:
  "''controlsMismatch'' \<in> set (random_accel_events fp CS evs)
     \<longleftrightarrow> ''controlsMismatch'' \<in> set evs"
  by (simp add: random_accel_events_def Let_def mem_add)

lemma cm_update_frogpilot_events:
  "''controlsMismatch'' \<in> set (update_frogpilot_events CP fp sm CS evs)
     \<longleftrightarrow> ''controlsMismatch'' \<in> set evs"
  by (simp add: update_frogpilot_events_def Let_def mem_add cm_random_accel_events)

lemmas cm_after_pandas =
  cm_system_events cm_comm_issue_events cm_localization_events cm_cruise_mismatch_events
  cm_fcw_events cm_camera_error_events cm_gps_events cm_update_frogpilot_events

lemmas cm_before_pandas =
  cm_pedal_events cm_device_events cm_calibration_events cm_lane_change_events

text \<open>The loop keeps what it is given, and adds the event on any panda once the counter is at 200.\<close>

lemma panda_events_mono:
  "x \<in> set evs \<Longrightarrow> x \<in> set (panda_events CP sm mc i pss evs)"
  by (induction pss arbitrary: i evs) (simp_all add: Let_def mem_add)

lemma panda_events_threshold:
  "pss \<noteq> [] \<Longrightarrow> 200 \<le> mc \<Longrightarrow>
     ''controlsMismatch'' \<in> set (panda_events CP sm mc i pss evs)"
  by (cases pss) (simp_all add: Let_def panda_events_mono mem_add)

lemma cm_onroad_events:
  "''controlsMismatch'' \<in> set (onroad_events EVENTS CP env fp sm CS prev en mc cmc evs) \<longleftrightarrow>
     ''controlsMismatch'' \<in> set (panda_events CP sm mc 0 (pandaStates sm)
        (lane_change_events env sm CS (calibration_events sm (device_events env sm
           (pedal_events CP env sm CS prev evs)))))"
  by (simp add: onroad_events_def Let_def cm_after_pandas)

lemma update_events_fields [simp]:
  "enabled (update_events EVENTS CP env fp sm CS self) = enabled self"
  "initialized (update_events EVENTS CP env fp sm CS self) = initialized self"
  "soft_disable_timer (update_events EVENTS CP env fp sm CS self) = soft_disable_timer self"
  "mismatch_counter (update_events EVENTS CP env fp sm CS self) = mismatch_counter self"
  "state (update_events EVENTS CP env fp sm CS self) = state self"
  by (simp_all add: update_events_def Let_def)

lemma events_update_events_onroad:
  "initialized self \<Longrightarrow> \<not> CP_passive CP \<Longrightarrow>
   ''controlsMismatch'' \<in> set (events (update_events EVENTS CP env fp sm CS self)) \<longleftrightarrow>
     ''controlsMismatch'' \<in> set (panda_events CP sm (mismatch_counter self) 0 (pandaStates sm)
        (lane_change_events env sm CS (calibration_events sm (device_events env sm
           (pedal_events CP env sm CS (CS_prev self)
              (case (if joystick_mode env then None else startup_event self) of
                 None \<Rightarrow> add_if (joystick_mode env) ''joystickDebug'' (static_events self)
               | Some e \<Rightarrow> Events_add e
                    (add_if (joystick_mode env) ''joystickDebug'' (static_events self))))))))"
  by (simp add: update_events_def Let_def cm_onroad_events)

text \<open>
  C10. With an empty list of panda states, \<^verbatim>\<open>update_events\<close> puts no
  \<^verbatim>\<open>controlsMismatch\<close> into the collection, whatever the mismatch counter is: the event
  is absent unless it was a static event, the startup event, or reported by driver
  monitoring or by the car.
\<close>

theorem no_pandas_no_controlsMismatch:
  assumes "pandaStates sm = []"
    and "''controlsMismatch'' \<notin> set (static_events self)"
    and "startup_event self \<noteq> Some ''controlsMismatch''"
    and "''controlsMismatch'' \<notin> set (driverMonitoringState_events sm)"
    and "''controlsMismatch'' \<notin> set (carEvents CS)"
  shows "''controlsMismatch'' \<notin> set (events (update_events EVENTS CP env fp sm CS self))"
proof (cases "initialized self \<and> \<not> CP_passive CP")
  case True
  then show ?thesis
    using assms
    by (auto simp add: events_update_events_onroad cm_before_pandas mem_add
        split: option.splits)
next
  case False
  then show ?thesis
    using assms
    by (auto simp add: update_events_def Let_def mem_add split: option.splits)
qed

theorem no_pandas_no_controlsMismatch_witness:
  "pandaStates (example_sm 3 []) = []
   \<and> ''controlsMismatch'' \<notin> set (static_events (example_engaged 1000 [PERMANENT, WARNING]))
   \<and> startup_event (example_engaged 1000 [PERMANENT, WARNING]) \<noteq> Some ''controlsMismatch''
   \<and> ''controlsMismatch'' \<notin> set (driverMonitoringState_events (example_sm 3 []))
   \<and> ''controlsMismatch'' \<notin> set (carEvents example_CS)
   \<and> mismatch_counter (example_engaged 1000 [PERMANENT, WARNING]) = 1000
   \<and> ''controlsMismatch'' \<notin> set (events (update_events example_EVENTS example_CP
         example_env example_fp (example_sm 3 []) example_CS
         (example_engaged 1000 [PERMANENT, WARNING])))"
  using no_pandas_no_controlsMismatch [of "example_sm 3 []"
      "example_engaged 1000 [PERMANENT, WARNING]" example_CS example_EVENTS example_CP
      example_env example_fp]
  by (simp add: example_sm_def example_engaged_def example_CS_def CarState_new_def)

section \<open>Properties of whole runs\<close>

lemma initialized_state_transition [simp]:
  "initialized (state_transition EVENTS aol self) = initialized self"
  by (simp add: state_transition_def Let_def transition_engaged_def transition_disabled_def
      alert_def)

lemma timer_state_transition_nonneg:
  "0 \<le> soft_disable_timer (state_transition EVENTS aol self)"
  by (simp add: timer_state_transition soft_disable_ticks)

lemma step_timer_nonneg:
  "0 \<le> soft_disable_timer self \<Longrightarrow> 0 \<le> soft_disable_timer (step EVENTS CP cy self)"
  by (simp add: step_def Let_def timer_state_transition_nonneg)

lemma run_timer_nonneg:
  "0 \<le> soft_disable_timer self \<Longrightarrow> 0 \<le> soft_disable_timer (run EVENTS CP cys self)"
  by (induction cys arbitrary: self) (simp_all add: step_timer_nonneg)

text \<open>
  The engaged flag is only ever set by a state transition, and the transition runs only
  once the controller is initialized on a car that is not passive.
\<close>

lemma step_engaged_initialized:
  assumes "enabled self \<longrightarrow> initialized self \<and> \<not> CP_passive CP"
  shows "enabled (step EVENTS CP cy self) \<longrightarrow>
           initialized (step EVENTS CP cy self) \<and> \<not> CP_passive CP"
  using assms by (auto simp add: step_def Let_def data_sample_initialized)

lemma run_engaged_initialized:
  "enabled self \<longrightarrow> initialized self \<and> \<not> CP_passive CP \<Longrightarrow>
   enabled (run EVENTS CP cys self) \<longrightarrow>
     initialized (run EVENTS CP cys self) \<and> \<not> CP_passive CP"
proof (induction cys arbitrary: self)
  case Nil
  then show ?case by simp
next
  case (Cons cy cys)
  show ?case
    using Cons.IH [OF step_engaged_initialized [OF Cons.prems]] by simp
qed

lemma run_append: "run EVENTS CP (xs @ ys) self = run EVENTS CP ys (run EVENTS CP xs self)"
  by (induction xs arbitrary: self) simp_all

text \<open>The example cycles, evaluated: the first engages, each later one counts a mismatch.\<close>

lemmas example_defs =
  example_panda_def example_CP_def example_CS_def example_env_def example_fp_def
  example_sm_def example_cycle_def example_engaged_def CarState_new_def

lemmas update_events_defs =
  update_events_def onroad_events_def pedal_events_def device_events_def
  calibration_events_def lane_change_events_def system_events_def comm_issue_events_def
  localization_events_def cruise_mismatch_events_def cruise_mismatch_next_def
  fcw_events_def gps_events_def update_frogpilot_events_def add_if_def Events_add_def
  Events_add_from_msg_def Events_contains_def DT_CTRL_def py_int_def
  IGNORED_SAFETY_MODES_def

lemmas state_transition_defs =
  state_transition_def transition_engaged_def transition_disabled_def contains_def
  alert_def ENABLED_STATES_def ACTIVE_STATES_def Events_contains_def

lemma example_first_cycle:
  "step example_EVENTS example_CP (example_cycle k) (Controls_init [] None)
     = example_engaged 0 [PERMANENT, ENABLE, WARNING]"
  by (simp add: step_def data_sample_def set_initial_state_def Let_def Controls_init_def
      example_defs update_events_defs state_transition_defs example_EVENTS_def)

lemma example_next_cycle:
  "mc + 1 < 200 \<Longrightarrow>
   step example_EVENTS example_CP (example_cycle k) (example_engaged mc ats)
     = example_engaged (mc + 1) [PERMANENT, WARNING]"
  by (simp add: step_def data_sample_def set_initial_state_def Let_def
      example_defs update_events_defs state_transition_defs example_EVENTS_def)

lemma example_run:
  "n < 200 \<Longrightarrow>
   run example_EVENTS example_CP (map example_cycle [0..<Suc n]) (Controls_init [] None)
     = example_engaged (int n)
         (if n = 0 then [PERMANENT, ENABLE, WARNING] else [PERMANENT, WARNING])"
proof (induction n)
  case 0
  then show ?case by (simp add: example_first_cycle)
next
  case (Suc n)
  then have "n < 200" and "int n + 1 < 200"
    by simp_all
  then show ?case
    using Suc.IH example_next_cycle [of "int n" "Suc n"]
    by (simp add: run_append add.commute)
qed

text \<open>
  C9. The soft-disable timer starts at 0 and is never negative, whatever the cycles of
  the run are: the decrement stops at 0 and a re-arm sets 300.
\<close>

theorem soft_disable_timer_nonneg:
  "soft_disable_timer (Controls_init static startup) = 0
   \<and> 0 \<le> soft_disable_timer (run EVENTS CP cys (Controls_init static startup))"
proof -
  have "soft_disable_timer (Controls_init static startup) = 0"
    by (simp add: Controls_init_def)
  then show ?thesis
    by (simp add: run_timer_nonneg)
qed

theorem soft_disable_timer_nonneg_witness:
  "soft_disable_timer (Controls_init [] None) = 0
   \<and> 0 \<le> soft_disable_timer (run example_EVENTS example_CP
            [example_cycle 0, example_cycle 1] (Controls_init [] None))"
  using soft_disable_timer_nonneg [of "[]" None example_EVENTS example_CP
      "[example_cycle 0, example_cycle 1]"]
  by simp

text \<open>
  C6. In a run from the initial state, on a cycle that finds the controller engaged with
  the mismatch counter below 200 and in which \<^verbatim>\<open>data_sample\<close> brings the counter to
  200, the collection that \<^verbatim>\<open>update_events\<close> builds in that cycle holds
  \<^verbatim>\<open>controlsMismatch\<close>.
\<close>

theorem mismatch_threshold_event:
  assumes reach: "self = run EVENTS CP cys (Controls_init static startup)"
    and en: "enabled self"
    and below: "mismatch_counter self < 200"
    and reached: "200 \<le> mismatch_counter (data_sample env sm CS self)"
  shows "''controlsMismatch''
           \<in> set (events (update_events EVENTS CP env fp sm CS (data_sample env sm CS self)))"
proof -
  have "enabled (Controls_init static startup) \<longrightarrow>
          initialized (Controls_init static startup) \<and> \<not> CP_passive CP"
    by (simp add: Controls_init_def)
  from run_engaged_initialized [OF this, of EVENTS cys] reach en
  have init: "initialized self" and active_car: "\<not> CP_passive CP"
    by simp_all
  have "mismatch_counter (data_sample env sm CS self) \<noteq> mismatch_counter self"
    using below reached by simp
  then have "list_ex (\<lambda>ps. safetyModel ps \<notin> set IGNORED_SAFETY_MODES \<and> \<not> controlsAllowed ps)
               (pandaStates sm)"
    using en by (simp add: data_sample_mismatch_counter split: if_splits)
  then have nonempty: "pandaStates sm \<noteq> []"
    by auto
  show ?thesis
    using panda_events_threshold [OF nonempty reached]
    by (simp add: events_update_events_onroad [OF data_sample_initialized [OF init] active_car])
qed

theorem mismatch_threshold_event_witness:
  "example_engaged 199 [PERMANENT, WARNING]
     = run example_EVENTS example_CP (map example_cycle [0..<200]) (Controls_init [] None)
   \<and> enabled (example_engaged 199 [PERMANENT, WARNING])
   \<and> mismatch_counter (example_engaged 199 [PERMANENT, WARNING]) < 200
   \<and> 200 \<le> mismatch_counter (data_sample example_env (example_sm 200 [example_panda])
               example_CS (example_engaged 199 [PERMANENT, WARNING]))
   \<and> ''controlsMismatch'' \<in> set (events (update_events example_EVENTS example_CP
         example_env example_fp (example_sm 200 [example_panda]) example_CS
         (data_sample example_env (example_sm 200 [example_panda]) example_CS
            (example_engaged 199 [PERMANENT, WARNING]))))"
proof -
  have reach: "example_engaged 199 [PERMANENT, WARNING]
     = run example_EVENTS example_CP (map example_cycle [0..<200]) (Controls_init [] None)"
    using example_run [of 199] by simp
  have en: "enabled (example_engaged 199 [PERMANENT, WARNING])"
    and below: "mismatch_counter (example_engaged 199 [PERMANENT, WARNING]) < 200"
    by (simp_all add: example_engaged_def)
  have reached: "200 \<le> mismatch_counter (data_sample example_env
      (example_sm 200 [example_panda]) example_CS (example_engaged 199 [PERMANENT, WARNING]))"
    by (simp add: data_sample_mismatch_counter example_engaged_def example_sm_def
        example_panda_def IGNORED_SAFETY_MODES_def)
  show ?thesis
    using reach en below reached
      mismatch_threshold_event [OF reach en below reached, where fp = example_fp]
    by simp
qed

end
